theory Spec2Isabelle
  imports Complex_Main "HOL-Library.Word" "HOL-Library.Char_ord" "HOL-Library.List_Lexorder"
begin

section \<open>JavaScript strings and numbers used by the address codec\<close>

text \<open>
  A JavaScript string is modelled as a \<^typ>\<open>string\<close>: a list of code units below 256.
  The helpers below are the library calls of \<^verbatim>\<open>src/api/src/lib/database.ts\<close>:
  \<^verbatim>\<open>split\<close>, \<^verbatim>\<open>join\<close>, \<^verbatim>\<open>includes\<close>, \<^verbatim>\<open>padStart\<close>, \<^verbatim>\<open>trim\<close>, \<^verbatim>\<open>Number\<close>,
  \<^verbatim>\<open>BigInt\<close>, \<^verbatim>\<open>toString\<close> and the 32-bit shift \<^verbatim>\<open><<\<close>.
\<close>

datatype js_error = Error string | SyntaxError string | RangeError string

fun message :: "js_error \<Rightarrow> string" where
  "message (Error m) = m"
| "message (SyntaxError m) = m"
| "message (RangeError m) = m"

definition isDigit :: "char \<Rightarrow> bool" where
  "isDigit c = (48 \<le> (of_char c :: int) \<and> (of_char c :: int) \<le> 57)"

definition digitVal :: "char \<Rightarrow> int" where
  "digitVal c = of_char c - 48"

definition isHexDigit :: "char \<Rightarrow> bool" where
  "isHexDigit c = (isDigit c
     \<or> (97 \<le> (of_char c :: int) \<and> (of_char c :: int) \<le> 102)
     \<or> (65 \<le> (of_char c :: int) \<and> (of_char c :: int) \<le> 70))"

definition hexVal :: "char \<Rightarrow> int" where
  "hexVal c = (if isDigit c then of_char c - 48
               else if 97 \<le> (of_char c :: int) then of_char c - 87
               else of_char c - 55)"

text \<open>White space as \<^verbatim>\<open>trim\<close> and the string-to-BigInt conversion strip it: TAB, LF, VT, FF,
  CR, SP and NBSP (the code units below 256 among them).\<close>

definition isWhiteSpace :: "char \<Rightarrow> bool" where
  "isWhiteSpace c = ((of_char c :: int) \<in> {9, 10, 11, 12, 13, 32, 160})"

definition trimEnd :: "string \<Rightarrow> string" where
  "trimEnd s = rev (dropWhile isWhiteSpace (rev s))"

definition trim :: "string \<Rightarrow> string" where
  "trim s = trimEnd (dropWhile isWhiteSpace s)"

text \<open>\<^verbatim>\<open>s.split(c)\<close> for a one-character separator: always at least one part.\<close>

fun split_chr :: "char \<Rightarrow> string \<Rightarrow> string list" where
  "split_chr c [] = [[]]"
| "split_chr c (x # xs) =
     (if x = c then [] # split_chr c xs
      else (case split_chr c xs of
              [] \<Rightarrow> [[x]]
            | p # ps \<Rightarrow> (x # p) # ps))"

text \<open>\<^verbatim>\<open>s.split('::')\<close>: the leftmost occurrence is a separator, the scan goes on behind it.\<close>

fun split_dcolon :: "string \<Rightarrow> string list" where
  "split_dcolon [] = [[]]"
| "split_dcolon [x] = [[x]]"
| "split_dcolon (x # y # xs) =
     (if x = CHR '':'' \<and> y = CHR '':'' then [] # split_dcolon xs
      else (case split_dcolon (y # xs) of
              [] \<Rightarrow> [[x]]
            | p # ps \<Rightarrow> (x # p) # ps))"

text \<open>\<^verbatim>\<open>parts.join(sep)\<close>.\<close>

fun join :: "string \<Rightarrow> string list \<Rightarrow> string" where
  "join sep [] = []"
| "join sep [p] = p"
| "join sep (p # q # ps) = p @ sep @ join sep (q # ps)"

text \<open>\<^verbatim>\<open>s.includes(t)\<close>: \<open>t\<close> occurs in \<open>s\<close> as a substring.\<close>

fun includes_str :: "string \<Rightarrow> string \<Rightarrow> bool" where
  "includes_str [] t = (t = [])"
| "includes_str (x # xs) t = (take (length t) (x # xs) = t \<or> includes_str xs t)"

definition padStart :: "nat \<Rightarrow> char \<Rightarrow> string \<Rightarrow> string" where
  "padStart n c s = replicate (n - length s) c @ s"

text \<open>\<^verbatim>\<open>Number(part)\<close> is only ever applied to a part that the IPv4 pattern has already
  matched: one to three ASCII digits. There it is the decimal value; a leading zero does
  not switch to octal.\<close>

definition Number :: "string \<Rightarrow> int" where
  "Number s = foldl (\<lambda>acc c. 10 * acc + digitVal c) 0 s"

text \<open>\<^verbatim>\<open>toString()\<close> of an integral Number below \<open>2^53\<close> in magnitude and of a BigInt:
  the decimal digits, behind a minus sign when negative.\<close>

function digits_of :: "int \<Rightarrow> string" where
  "digits_of n =
     (if n < 10 then [char_of (48 + n)]
      else digits_of (n div 10) @ [char_of (48 + n mod 10)])"
  by pat_completeness auto
termination
  by (relation "measure nat") auto

declare digits_of.simps [simp del]

definition toString :: "int \<Rightarrow> string" where
  "toString i = (if i < 0 then CHR ''-'' # digits_of (- i) else digits_of i)"

text \<open>\<^verbatim>\<open>x << n\<close>: the left operand is taken to a signed 32-bit integer, shifted, and read
  back as a signed 32-bit integer.\<close>

definition shl32 :: "int \<Rightarrow> nat \<Rightarrow> int" where
  "shl32 x n = sint (push_bit (n mod 32) (word_of_int x :: 32 word))"

text \<open>\<^verbatim>\<open>BigInt('0x' + part)\<close>: trailing white space is stripped; what remains must be
  \<^verbatim>\<open>0x\<close> and at least one hexadecimal digit, otherwise a SyntaxError is thrown (the
  message is the one of Node's engine).\<close>

definition BigInt_hex :: "string \<Rightarrow> js_error + int" where
  "BigInt_hex part =
     (let body = trimEnd part in
      if body \<noteq> [] \<and> list_all isHexDigit body
      then Inr (foldl (\<lambda>acc c. 16 * acc + hexVal c) 0 body)
      else Inl (SyntaxError (''Cannot convert 0x'' @ part @ '' to a BigInt'')))"

section \<open>AddressCodec: \<^verbatim>\<open>ipToPaddedDecimal\<close>\<close>

text \<open>The pattern \<^verbatim>\<open>/^(\d{1,3}\.){3}\d{1,3}$/\<close>: four groups of one to three digits
  separated by dots. A digit is no dot, so the groups are the parts of the split.\<close>

definition ipv4Regex :: "string \<Rightarrow> bool" where
  "ipv4Regex ip =
     (let groups = split_chr CHR ''.'' ip in
      length groups = 4 \<and>
      list_all (\<lambda>g. 1 \<le> length g \<and> length g \<le> 3 \<and> list_all isDigit g) groups)"

definition isIPv4 :: "string \<Rightarrow> bool" where
  "isIPv4 ip =
     (if \<not> ipv4Regex ip then False
      else (let parts = map Number (split_chr CHR ''.'' ip) in
            length parts = 4 \<and> list_all (\<lambda>part. part \<ge> 0 \<and> part \<le> 255) parts))"

text \<open>The pattern \<^verbatim>\<open>/^([0-9a-fA-F]{1,4}:){7}[0-9a-fA-F]{1,4}$|^::1$|^::$/\<close>.\<close>

definition ipv6Regex :: "string \<Rightarrow> bool" where
  "ipv6Regex ip =
     ((let groups = split_chr CHR '':'' ip in
       length groups = 8 \<and>
       list_all (\<lambda>g. 1 \<le> length g \<and> length g \<le> 4 \<and> list_all isHexDigit g) groups)
      \<or> ip = ''::1'' \<or> ip = ''::'')"

definition isIPv6 :: "string \<Rightarrow> bool" where
  "isIPv6 ip = (ipv6Regex ip \<or> includes_str ip '':'')"

text \<open>\<^verbatim>\<open>normalizeIPv6\<close>. \<^verbatim>\<open>Array(n)\<close> with a negative \<open>n\<close> throws a RangeError. Of the
  parts of the split on \<^verbatim>\<open>::\<close> only the first two are read; an empty (or absent) part is
  falsy and gives no groups.\<close>

definition groupsOf :: "string \<Rightarrow> string list" where
  "groupsOf p = (if p = [] then [] else split_chr CHR '':'' p)"

definition normalizeIPv6 :: "string \<Rightarrow> js_error + string" where
  "normalizeIPv6 ip =
     (if includes_str ip ''::'' then
        (let parts = split_dcolon ip;
             leftParts = (case parts of [] \<Rightarrow> [] | p0 # _ \<Rightarrow> groupsOf p0);
             rightParts = (case parts of _ # p1 # _ \<Rightarrow> groupsOf p1 | _ \<Rightarrow> []);
             missingZeros = 8 - int (length leftParts) - int (length rightParts)
         in if missingZeros < 0 then Inl (RangeError ''Invalid array length'')
            else Inr (join '':'' (leftParts @ replicate (nat missingZeros) ''0000'' @ rightParts)))
      else Inr (join '':'' (map (padStart 4 CHR ''0'') (split_chr CHR '':'' ip))))"

text \<open>The loop of \<^verbatim>\<open>ipv6ToDecimal\<close>: the first group that does not convert throws.\<close>

fun hexGroups :: "int \<Rightarrow> string list \<Rightarrow> js_error + int" where
  "hexGroups result [] = Inr result"
| "hexGroups result (part # parts) =
     (case BigInt_hex part of
        Inl e \<Rightarrow> Inl e
      | Inr v \<Rightarrow> hexGroups (result * 65536 + v) parts)"

definition ipv6ToDecimal :: "string \<Rightarrow> js_error + int" where
  "ipv6ToDecimal ip =
     (if ip = ''::1'' then Inr 281470681743359
      else if ip = ''::'' then Inr 0
      else (case normalizeIPv6 ip of
              Inl e \<Rightarrow> Inl e
            | Inr normalized \<Rightarrow> hexGroups 0 (split_chr CHR '':'' normalized)))"

definition ipToPaddedDecimal :: "string \<Rightarrow> js_error + string" where
  "ipToPaddedDecimal ip =
     (if isIPv4 ip then
        (let parts = map Number (split_chr CHR ''.'' ip) in
         if length parts \<noteq> 4 \<or> list_ex (\<lambda>part. part < 0 \<or> part > 255) parts
         then Inl (Error ''Invalid IPv4 address'')
         else (let decimal = shl32 (parts ! 0) 24 + shl32 (parts ! 1) 16
                             + shl32 (parts ! 2) 8 + parts ! 3
               in Inr (padStart 39 CHR ''0'' (toString decimal))))
      else if isIPv6 ip then
        (case ipv6ToDecimal ip of
           Inl e \<Rightarrow> Inl e
         | Inr decimal \<Rightarrow> Inr (padStart 39 CHR ''0'' (toString decimal)))
      else Inl (Error ''Invalid IP address format''))"

section \<open>RangeStore: the table \<^verbatim>\<open>ip2location_db11_ipv6\<close>\<close>

text \<open>\<^verbatim>\<open>IPGeolocationResult\<close> holds the ten public columns; a row of the table has the two
  padded keys besides. \<^verbatim>\<open>ip_from_padded\<close> is the primary key of the table.\<close>

record IPGeolocationResult =
  ip_from_dec :: string
  ip_to_dec :: string
  country_code :: "string option"
  country_name :: "string option"
  region_name :: "string option"
  city_name :: "string option"
  latitude :: "real option"
  longitude :: "real option"
  zip_code :: "string option"
  time_zone :: "string option"

record row = IPGeolocationResult +
  ip_from_padded :: string
  ip_to_padded :: string

text \<open>The query of \<^verbatim>\<open>lookupIP\<close>. Text columns compare byte by byte, a proper prefix
  first: the order of \<^typ>\<open>string\<close>.
  \<^verbatim>\<open>WITH cand AS (SELECT * FROM ip2location_db11_ipv6 WHERE ip_from_padded <= ?
                   ORDER BY ip_from_padded DESC LIMIT 1)
  SELECT * FROM cand WHERE ip_to_padded >= ?\<close>\<close>

definition cand :: "row list \<Rightarrow> string \<Rightarrow> row list" where
  "cand tbl key =
     take 1 (rev (sort_key ip_from_padded (filter (\<lambda>r. ip_from_padded r \<le> key) tbl)))"

definition rangeQuery :: "row list \<Rightarrow> string \<Rightarrow> row list" where
  "rangeQuery tbl key = filter (\<lambda>r. ip_to_padded r \<ge> key) (cand tbl key)"

section \<open>RangeLookupEngine: \<^verbatim>\<open>lookupIP\<close> and \<^verbatim>\<open>lookupIPs\<close>\<close>

text \<open>The module keeps one lazily created client (\<^verbatim>\<open>let client = null\<close>); the client is
  identified by the url it was created with. \<open>env\<close> is \<^verbatim>\<open>process.env.DATABASE_PATH\<close>
  (absent or empty: the default path). A \<open>storage\<close> is the database library seen from the
  module: \<open>createClient\<close> says what \<^verbatim>\<open>createClient\<close> throws for a url, if anything, and
  \<open>execute\<close> what \<^verbatim>\<open>execute\<close> yields on the client of a url: a rejection, or the rows of
  the table the query runs on. \<^verbatim>\<open>client\<close> is assigned only when \<^verbatim>\<open>createClient\<close> has
  returned: after a failed creation it is still null.\<close>

record module_state =
  client :: "string option"

record storage =
  createClient :: "string \<Rightarrow> js_error option"
  execute :: "string \<Rightarrow> js_error + row list"

definition getDatabase ::
  "string option \<Rightarrow> storage \<Rightarrow> module_state \<Rightarrow> (js_error + string) \<times> module_state" where
  "getDatabase env files st =
     (case client st of
        None \<Rightarrow>
          (let dbPath = (case env of
                           None \<Rightarrow> ''./data/primary.db''
                         | Some p \<Rightarrow> if p = [] then ''./data/primary.db'' else p);
               url = ''file:'' @ dbPath
           in (case createClient files url of
                 Some e \<Rightarrow> (Inl e, st)
               | None \<Rightarrow> (Inr url, st\<lparr>client := Some url\<rparr>)))
      | Some c \<Rightarrow> (Inr c, st))"

definition project :: "row \<Rightarrow> IPGeolocationResult" where
  "project r =
     \<lparr>ip_from_dec = ip_from_dec r, ip_to_dec = ip_to_dec r,
      country_code = country_code r, country_name = country_name r,
      region_name = region_name r, city_name = city_name r,
      latitude = latitude r, longitude = longitude r,
      zip_code = zip_code r, time_zone = time_zone r\<rparr>"

text \<open>\<^verbatim>\<open>lookupIP\<close>: the promise is rejected (\<open>Inl\<close>) with whatever the conversion, the
  creation of the client or the query throws (the \<^verbatim>\<open>catch\<close> logs and throws the same error again), and is fulfilled
  (\<open>Inr\<close>) with \<^verbatim>\<open>null\<close> (\<open>None\<close>) or the projected row.\<close>

definition lookupIP ::
  "string option \<Rightarrow> storage \<Rightarrow> module_state \<Rightarrow> string
     \<Rightarrow> (js_error + IPGeolocationResult option) \<times> module_state" where
  "lookupIP env files st ip =
     (case ipToPaddedDecimal ip of
        Inl e \<Rightarrow> (Inl e, st)
      | Inr paddedDecimal \<Rightarrow>
          (case getDatabase env files st of
             (Inl e, st') \<Rightarrow> (Inl e, st')
           | (Inr db, st') \<Rightarrow>
               (case execute files db of
                  Inl e \<Rightarrow> (Inl e, st')
                | Inr tbl \<Rightarrow>
                    (let rows = rangeQuery tbl paddedDecimal in
                     if length rows = 0 then (Inr None, st')
                     else (Inr (Some (project (rows ! 0))), st')))))"

text \<open>\<^verbatim>\<open>lookupIPs\<close>: \<^verbatim>\<open>ips.map(ip => lookupIP(ip))\<close> starts the lookups in input order;
  \<^verbatim>\<open>Promise.allSettled\<close> keeps that order, and a rejected lookup becomes \<^verbatim>\<open>null\<close>.\<close>

fun lookupIPs ::
  "string option \<Rightarrow> storage \<Rightarrow> module_state \<Rightarrow> string list
     \<Rightarrow> IPGeolocationResult option list \<times> module_state" where
  "lookupIPs env files st [] = ([], st)"
| "lookupIPs env files st (ip # ips) =
     (let (result, st1) = lookupIP env files st ip;
          (results, st2) = lookupIPs env files st1 ips
      in ((case result of Inr v \<Rightarrow> v | Inl e \<Rightarrow> None) # results, st2))"

section \<open>The caller: the handler of \<^verbatim>\<open>GET /ip/:ip\<close>\<close>

text \<open>The handler of \<^verbatim>\<open>src/api/entrypoint.sh\<close>. It answers with the geolocation, throws
  \<^verbatim>\<open>InvalidIPAddress\<close> or \<^verbatim>\<open>IPNotFound\<close> (\<^verbatim>\<open>ValidationError\<close> is for the handler of
  \<^verbatim>\<open>/lookup\<close> below), or throws again the error of the lookup. Its
  \<^verbatim>\<open>catch\<close> also sees the \<^verbatim>\<open>IPNotFound\<close> it threw itself, whose message
  \<^verbatim>\<open>IP address not found\<close> does not make it an invalid address.\<close>

datatype response =
    Success string IPGeolocationResult
  | InvalidIPAddress
  | IPNotFound
  | ValidationError
  | Rethrown js_error

definition ipHandler ::
  "string option \<Rightarrow> storage \<Rightarrow> module_state \<Rightarrow> string \<Rightarrow> response \<times> module_state" where
  "ipHandler env files st ip =
     (if ip = [] \<or> trim ip = [] then (InvalidIPAddress, st)
      else (let trimmedIP = trim ip in
            if length trimmedIP > 45 then (InvalidIPAddress, st)
            else (case lookupIP env files st trimmedIP of
                    (Inr None, st') \<Rightarrow> (IPNotFound, st')
                  | (Inr (Some result), st') \<Rightarrow> (Success trimmedIP result, st')
                  | (Inl error, st') \<Rightarrow>
                      (if includes_str (message error) ''Invalid IP address''
                       then (InvalidIPAddress, st')
                       else (Rethrown error, st')))))"

text \<open>The handler of \<^verbatim>\<open>GET /lookup?ip=\<close>: the same, but for a missing parameter.\<close>

definition lookupHandler ::
  "string option \<Rightarrow> storage \<Rightarrow> module_state \<Rightarrow> string option
     \<Rightarrow> response \<times> module_state" where
  "lookupHandler env files st q =
     (case q of
        None \<Rightarrow> (ValidationError, st)
      | Some ip \<Rightarrow>
          (if ip = [] \<or> trim ip = [] then (ValidationError, st)
           else (let trimmedIP = trim ip in
                 if length trimmedIP > 45 then (InvalidIPAddress, st)
                 else (case lookupIP env files st trimmedIP of
                         (Inr None, st') \<Rightarrow> (IPNotFound, st')
                       | (Inr (Some result), st') \<Rightarrow> (Success trimmedIP result, st')
                       | (Inl error, st') \<Rightarrow>
                           (if includes_str (message error) ''Invalid IP address''
                            then (InvalidIPAddress, st')
                            else (Rethrown error, st'))))))"

section \<open>Terms of the statements\<close>

text \<open>A part of a dotted quad as the IPv4 grammar takes it: one to three decimal digits
  whose decimal value is at most 255. Leading zeros are allowed.\<close>

definition octetText :: "string \<Rightarrow> bool" where
  "octetText p = (1 \<le> length p \<and> length p \<le> 3 \<and> list_all isDigit p \<and> Number p \<le> 255)"

definition dottedQuad :: "string \<Rightarrow> string \<Rightarrow> string \<Rightarrow> string \<Rightarrow> string" where
  "dottedQuad a b c d = a @ ''.'' @ b @ ''.'' @ c @ ''.'' @ d"

text \<open>The integer value of the dotted quad \<open>a.b.c.d\<close> in the words of the specification:
  \<open>a * 2^24 + b * 2^16 + c * 2^8 + d\<close>.\<close>

definition spec_ipv4_value :: "int \<Rightarrow> int \<Rightarrow> int \<Rightarrow> int \<Rightarrow> int" where
  "spec_ipv4_value a b c d = a * 2 ^ 24 + b * 2 ^ 16 + c * 2 ^ 8 + d"

text \<open>A table for the examples: two rows, filled in as the load script fills them (the
  padded columns are the decimal columns, zero-padded to 39 characters).\<close>

definition sample_row :: "string \<Rightarrow> string \<Rightarrow> string \<Rightarrow> string \<Rightarrow> row" where
  "sample_row lo hi cc city =
     \<lparr>ip_from_dec = lo, ip_to_dec = hi,
      country_code = Some cc, country_name = None,
      region_name = None, city_name = Some city,
      latitude = None, longitude = None,
      zip_code = None, time_zone = None,
      ip_from_padded = padStart 39 CHR ''0'' lo,
      ip_to_padded = padStart 39 CHR ''0'' hi\<rparr>"

definition sample_table :: "row list" where
  "sample_table =
     [sample_row ''16777216'' ''16777471'' ''AU'' ''Brisbane'',
      sample_row ''134744064'' ''134744319'' ''US'' ''Mountain View'']"

definition sample_storage :: storage where
  "sample_storage = \<lparr>createClient = (\<lambda>url. None), execute = (\<lambda>url. Inr sample_table)\<rparr>"

definition empty_storage :: storage where
  "empty_storage = \<lparr>createClient = (\<lambda>url. None), execute = (\<lambda>url. Inr [])\<rparr>"

text \<open>A table with a range that starts at the value of \<^verbatim>\<open>128.0.0.0\<close>, \<open>128 * 2^24\<close>.\<close>

definition high_table :: "row list" where
  "high_table =
     [sample_row ''16777216'' ''16777471'' ''AU'' ''Brisbane'',
      sample_row ''2147483648'' ''2147483903'' ''US'' ''Columbus'']"

definition high_storage :: storage where
  "high_storage = \<lparr>createClient = (\<lambda>url. None), execute = (\<lambda>url. Inr high_table)\<rparr>"

section \<open>The codec at particular addresses\<close>

text \<open>
  C2. \<^verbatim>\<open>::\<close> encodes to the key of 0. The fast path of \<^verbatim>\<open>ipv6ToDecimal\<close> gives \<^verbatim>\<open>::1\<close>
  the value 281470681743359, not 1: the key of \<^verbatim>\<open>::1\<close> differs from the key of
  \<^verbatim>\<open>0:0:0:0:0:0:0:1\<close>, which is the key of 1. The general expansion path, run on
  \<^verbatim>\<open>::1\<close>, gives 1.
\<close>

theorem loopback_fast_path_value:
  "ipToPaddedDecimal ''::'' = Inr ''000000000000000000000000000000000000000''
   \<and> ipToPaddedDecimal ''::1'' = Inr ''000000000000000000000000281470681743359''
   \<and> ipToPaddedDecimal ''0:0:0:0:0:0:0:1'' = Inr ''000000000000000000000000000000000000001''
   \<and> (case normalizeIPv6 ''::1'' of
         Inl e \<Rightarrow> Inl e
       | Inr normalized \<Rightarrow> hexGroups 0 (split_chr CHR '':'' normalized)) = Inr 1"
  by code_simp

theorem loopback_fast_path_value_witness:
  "ipToPaddedDecimal ''::1'' \<noteq> ipToPaddedDecimal ''0:0:0:0:0:0:0:1''"
  using loopback_fast_path_value by simp

text \<open>
  C3. The value of \<^verbatim>\<open>1.0.0.0\<close> (16777216) is below the value of \<^verbatim>\<open>128.0.0.0\<close>
  (2147483648), but the key of \<^verbatim>\<open>128.0.0.0\<close> is the smaller string: the 32-bit shift
  makes the number negative and the key carries a minus sign, which sorts before the digits.
\<close>

theorem ipv4_high_octet_order:
  "spec_ipv4_value 1 0 0 0 < spec_ipv4_value 128 0 0 0
   \<and> ipToPaddedDecimal ''1.0.0.0'' = Inr ''000000000000000000000000000000016777216''
   \<and> ipToPaddedDecimal ''128.0.0.0'' = Inr ''0000000000000000000000000000-2147483648''
   \<and> (''0000000000000000000000000000-2147483648'' :: string)
       < ''000000000000000000000000000000016777216''"
  by code_simp

theorem ipv4_high_octet_order_witness:
  "\<exists>ka kb. spec_ipv4_value 1 0 0 0 < spec_ipv4_value 128 0 0 0
      \<and> ipToPaddedDecimal ''1.0.0.0'' = Inr ka
      \<and> ipToPaddedDecimal ''128.0.0.0'' = Inr kb \<and> kb < ka"
  using ipv4_high_octet_order by simp

text \<open>
  C4. \<^verbatim>\<open>8.8.8.8\<close> encodes to the padded decimal of its value, 134744072.
  \<^verbatim>\<open>128.0.0.0\<close> does not encode to the padded decimal of its value \<open>128 * 2^24\<close>: the
  first octet is shifted as a signed 32-bit integer and the key is that of -2147483648.
\<close>

theorem ipv4_high_octet_value:
  "ipToPaddedDecimal ''8.8.8.8'' = Inr ''000000000000000000000000000000134744072''
   \<and> padStart 39 CHR ''0'' (toString (spec_ipv4_value 8 8 8 8))
       = ''000000000000000000000000000000134744072''
   \<and> ipToPaddedDecimal ''128.0.0.0'' = Inr ''0000000000000000000000000000-2147483648''
   \<and> padStart 39 CHR ''0'' (toString (spec_ipv4_value 128 0 0 0))
       = ''000000000000000000000000000002147483648''"
  by code_simp

theorem ipv4_high_octet_value_witness:
  "ipToPaddedDecimal ''8.8.8.8'' = Inr (padStart 39 CHR ''0'' (toString (spec_ipv4_value 8 8 8 8)))
   \<and> ipToPaddedDecimal ''128.0.0.0''
       \<noteq> Inr (padStart 39 CHR ''0'' (toString (spec_ipv4_value 128 0 0 0)))"
  using ipv4_high_octet_value by simp

text \<open>
  C6. The key of \<^verbatim>\<open>255.255.255.255\<close> has 39 characters, but one of them is a minus sign:
  not every character of a key is a digit.
\<close>

theorem ipv4_high_octet_minus_sign:
  "ipToPaddedDecimal ''255.255.255.255'' = Inr ''0000000000000000000000000000000000000-1''
   \<and> length ''0000000000000000000000000000000000000-1'' = 39
   \<and> \<not> list_all isDigit ''0000000000000000000000000000000000000-1''"
  by code_simp

theorem ipv4_high_octet_minus_sign_witness:
  "\<exists>k. ipToPaddedDecimal ''255.255.255.255'' = Inr k \<and> \<not> list_all isDigit k"
  using ipv4_high_octet_minus_sign by blast

section \<open>Errors that are not the invalid-address error\<close>

lemma mapped_address_key:
  "ipToPaddedDecimal ''::ffff:1.2.3.4''
     = Inl (SyntaxError ''Cannot convert 0x1.2.3.4 to a BigInt'')"
  by code_simp

lemma mapped_address_trim: "trim ''::ffff:1.2.3.4'' = ''::ffff:1.2.3.4''"
  by code_simp

lemma mapped_address_message:
  "\<not> includes_str ''Cannot convert 0x1.2.3.4 to a BigInt'' ''Invalid IP address''"
  by code_simp

lemma mapped_address_grammar:
  "includes_str ''::ffff:1.2.3.4'' '':'' \<and> \<not> ipv6Regex ''::ffff:1.2.3.4''
   \<and> \<not> isIPv4 ''::ffff:1.2.3.4'' \<and> isIPv6 ''::ffff:1.2.3.4''"
  by code_simp

text \<open>
  C9. \<^verbatim>\<open>::ffff:1.2.3.4\<close> contains a colon and does not match the IPv6 pattern; it passes
  \<^verbatim>\<open>isIPv6\<close>, and \<^verbatim>\<open>ipToPaddedDecimal\<close> throws the SyntaxError of the hex-group
  conversion, whose message is not \<^verbatim>\<open>Invalid IP address format\<close> and does not contain
  \<^verbatim>\<open>Invalid IP address\<close>. Both handlers throw that error again: neither answers
  \<^verbatim>\<open>InvalidIPAddress\<close>, whatever the store.
\<close>

theorem mapped_address_not_reported_invalid:
  "includes_str ''::ffff:1.2.3.4'' '':'' \<and> \<not> ipv6Regex ''::ffff:1.2.3.4''
   \<and> isIPv6 ''::ffff:1.2.3.4''
   \<and> ipToPaddedDecimal ''::ffff:1.2.3.4''
       = Inl (SyntaxError ''Cannot convert 0x1.2.3.4 to a BigInt'')
   \<and> message (SyntaxError ''Cannot convert 0x1.2.3.4 to a BigInt'')
       \<noteq> ''Invalid IP address format''
   \<and> fst (ipHandler env files st ''::ffff:1.2.3.4'')
       = Rethrown (SyntaxError ''Cannot convert 0x1.2.3.4 to a BigInt'')
   \<and> fst (lookupHandler env files st (Some ''::ffff:1.2.3.4''))
       = Rethrown (SyntaxError ''Cannot convert 0x1.2.3.4 to a BigInt'')"
  using mapped_address_grammar
  by (simp add: ipHandler_def lookupHandler_def lookupIP_def mapped_address_key
      mapped_address_trim mapped_address_message)

theorem mapped_address_not_reported_invalid_witness:
  "fst (ipHandler None empty_storage \<lparr>client = None\<rparr> ''::ffff:1.2.3.4'') \<noteq> InvalidIPAddress
   \<and> fst (lookupHandler None empty_storage \<lparr>client = None\<rparr> (Some ''::ffff:1.2.3.4''))
       \<noteq> InvalidIPAddress"
  using mapped_address_not_reported_invalid [of None empty_storage "\<lparr>client = None\<rparr>"]
  by simp

section \<open>Decimal digits and the order of keys\<close>

text \<open>The digits of a non-negative integer read back as that integer, and two digit strings
  of one length compare as their values do: on zero-padded keys of 39 digits the order of
  strings is the order of numbers.\<close>

lemma of_char_digit_char:
  "0 \<le> d \<Longrightarrow> d < 10 \<Longrightarrow> (of_char (char_of (48 + d :: int)) :: int) = 48 + d"
  by simp

lemma isDigit_digit_char: "0 \<le> d \<Longrightarrow> d < 10 \<Longrightarrow> isDigit (char_of (48 + d :: int))"
  by (simp add: isDigit_def)

lemma digitVal_digit_char: "0 \<le> d \<Longrightarrow> d < 10 \<Longrightarrow> digitVal (char_of (48 + d :: int)) = d"
  by (simp add: digitVal_def)

lemma digitVal_range: "isDigit c \<Longrightarrow> 0 \<le> digitVal c \<and> digitVal c \<le> 9"
  by (simp add: isDigit_def digitVal_def)

lemma Number_snoc: "Number (s @ [c]) = 10 * Number s + digitVal c"
  by (simp add: Number_def)

lemma Number_Nil: "Number [] = 0"
  by (simp add: Number_def)

lemma foldl_digits_shift:
  fixes f :: "int \<Rightarrow> char \<Rightarrow> int"
  defines "f \<equiv> \<lambda>acc c. 10 * acc + digitVal c"
  shows "foldl f a cs = a * 10 ^ length cs + foldl f 0 cs"
proof (induction cs arbitrary: a)
  case Nil
  show ?case by simp
next
  case (Cons c cs)
  have "foldl f a (c # cs) = foldl f (10 * a + digitVal c) cs"
    by (simp add: f_def)
  also have "\<dots> = (10 * a + digitVal c) * 10 ^ length cs + foldl f 0 cs"
    by (rule Cons.IH)
  finally have l: "foldl f a (c # cs) = (10 * a + digitVal c) * 10 ^ length cs + foldl f 0 cs" .
  have "foldl f 0 (c # cs) = foldl f (digitVal c) cs"
    by (simp add: f_def)
  also have "\<dots> = digitVal c * 10 ^ length cs + foldl f 0 cs"
    by (rule Cons.IH)
  finally have r: "foldl f 0 (c # cs) = digitVal c * 10 ^ length cs + foldl f 0 cs" .
  show ?case
    unfolding l r by (simp add: algebra_simps)
qed

lemma Number_Cons: "Number (c # cs) = digitVal c * 10 ^ length cs + Number cs"
  using foldl_digits_shift [of "digitVal c" cs] by (simp add: Number_def)

lemma Number_bounds:
  "list_all isDigit s \<Longrightarrow> 0 \<le> Number s \<and> Number s < 10 ^ length s"
proof (induction s)
  case Nil
  show ?case by (simp add: Number_Nil)
next
  case (Cons c cs)
  then have ih: "0 \<le> Number cs" "Number cs < 10 ^ length cs" by simp_all
  have d: "0 \<le> digitVal c" "digitVal c \<le> 9"
    using Cons.prems by (simp_all add: digitVal_range)
  define X :: int where "X = 10 ^ length cs"
  have "digitVal c * X \<le> 9 * X"
    using d by (simp add: mult_right_mono X_def)
  moreover have "0 \<le> digitVal c * X"
    using d by (simp add: X_def)
  moreover have "Number cs < X" "0 \<le> Number cs"
    using ih by (simp_all add: X_def)
  ultimately have "0 \<le> digitVal c * X + Number cs \<and> digitVal c * X + Number cs < 10 * X"
    by linarith
  then show ?case
    by (simp add: Number_Cons X_def)
qed

lemma digits_of_digits: "0 \<le> n \<Longrightarrow> list_all isDigit (digits_of n)"
proof (induction n rule: digits_of.induct)
  case (1 n)
  show ?case
  proof (cases "n < 10")
    case True
    then show ?thesis
      using "1.prems" by (simp add: digits_of.simps [of n] isDigit_digit_char)
  next
    case False
    then have "list_all isDigit (digits_of (n div 10))"
      using "1.IH" "1.prems" by simp
    moreover have "isDigit (char_of (48 + n mod 10))"
      by (rule isDigit_digit_char) simp_all
    ultimately show ?thesis
      using False by (simp add: digits_of.simps [of n])
  qed
qed

lemma Number_digits_of: "0 \<le> n \<Longrightarrow> Number (digits_of n) = n"
proof (induction n rule: digits_of.induct)
  case (1 n)
  show ?case
  proof (cases "n < 10")
    case True
    then show ?thesis
      using "1.prems" by (simp add: digits_of.simps [of n] Number_Cons Number_Nil digitVal_digit_char)
  next
    case False
    then have "Number (digits_of (n div 10)) = n div 10"
      using "1.IH" "1.prems" by simp
    moreover have "digitVal (char_of (48 + n mod 10)) = n mod 10"
      by (rule digitVal_digit_char) simp_all
    ultimately show ?thesis
      using False by (simp add: digits_of.simps [of n] Number_snoc)
  qed
qed


lemma length_digits_of: "0 \<le> n \<Longrightarrow> n < 10 ^ k \<Longrightarrow> 0 < k \<Longrightarrow> length (digits_of n) \<le> k"
proof (induction n arbitrary: k rule: digits_of.induct)
  case (1 n)
  show ?case
  proof (cases "n < 10")
    case True
    then show ?thesis
      using "1.prems" by (simp add: digits_of.simps [of n])
  next
    case False
    obtain j where k: "k = Suc j" using "1.prems"(3) by (cases k) auto
    have "j \<noteq> 0" using False "1.prems"(2) k by (cases j) auto
    moreover have "n div 10 < 10 ^ j"
      using "1.prems"(2) k by simp
    ultimately have "length (digits_of (n div 10)) \<le> j"
      using "1.IH" [of j] False "1.prems"(1) by simp
    then show ?thesis
      using False k by (simp add: digits_of.simps [of n])
  qed
qed

lemma Number_zero_padding: "Number (replicate j CHR ''0'' @ s) = Number s"
proof (induction j)
  case 0
  show ?case by simp
next
  case (Suc j)
  have "digitVal CHR ''0'' = 0" by (simp add: digitVal_def)
  then show ?case using Suc by (simp add: Number_Cons)
qed

lemma isDigit_zero: "isDigit CHR ''0''"
  by (simp add: isDigit_def)

lemma char_less_digitVal:
  "c < d \<longleftrightarrow> digitVal c < digitVal d"
proof -
  have "int (of_char c) = of_char c" "int (of_char d) = of_char d"
    by (simp_all add: of_nat_of_char)
  then show ?thesis
    unfolding less_char_def digitVal_def by linarith
qed

lemma digit_strings_less:
  "length s = length t \<Longrightarrow> list_all isDigit s \<Longrightarrow> list_all isDigit t
   \<Longrightarrow> Number s < Number t \<Longrightarrow> s < t"
proof (induction s t rule: list_induct2)
  case Nil
  then show ?case by (simp add: Number_Nil)
next
  case (Cons c cs d ds)
  have bc: "0 \<le> Number cs" "Number cs < 10 ^ length cs"
    using Cons.prems(1) Number_bounds [of cs] by simp_all
  have bd: "0 \<le> Number ds" "Number ds < 10 ^ length ds"
    using Cons.prems(2) Number_bounds [of ds] by simp_all
  have lt: "digitVal c * 10 ^ length cs + Number cs < digitVal d * 10 ^ length cs + Number ds"
    using Cons.prems(3) Cons.hyps by (simp add: Number_Cons)
  show ?case
  proof (cases "digitVal c < digitVal d")
    case True
    then show ?thesis by (simp add: char_less_digitVal)
  next
    case False
    have "\<not> digitVal d < digitVal c"
    proof
      assume "digitVal d < digitVal c"
      then have "digitVal d + 1 \<le> digitVal c" by simp
      then have "(digitVal d + 1) * 10 ^ length cs \<le> digitVal c * 10 ^ length cs"
        by (simp add: mult_right_mono)
      then show False
        using lt bc bd Cons.hyps by (simp add: algebra_simps)
    qed
    with False have eq: "digitVal c = digitVal d" by simp
    then have "c = d" by (simp add: digitVal_def)
    moreover have "Number cs < Number ds" using lt eq by simp
    then have "cs < ds" using Cons.IH Cons.prems by simp
    ultimately show ?thesis by simp
  qed
qed

lemma key_length: "0 \<le> n \<Longrightarrow> n < 10 ^ 39 \<Longrightarrow> length (padStart 39 CHR ''0'' (toString n)) = 39"
  using length_digits_of [of n 39] by (simp add: padStart_def toString_def)

lemma zeros_digits: "list_all isDigit (replicate j CHR ''0'')"
  by (induction j) (simp_all add: isDigit_zero)

lemma key_digits: "0 \<le> n \<Longrightarrow> list_all isDigit (padStart 39 CHR ''0'' (toString n))"
  by (simp add: padStart_def toString_def digits_of_digits zeros_digits)

lemma Number_key: "0 \<le> n \<Longrightarrow> Number (padStart 39 CHR ''0'' (toString n)) = n"
  by (simp add: padStart_def toString_def Number_zero_padding Number_digits_of)

lemma key_less:
  assumes "0 \<le> m" "m < n" "n < 10 ^ 39"
  shows "padStart 39 CHR ''0'' (toString m) < padStart 39 CHR ''0'' (toString n)"
proof (rule digit_strings_less)
  show "length (padStart 39 CHR ''0'' (toString m)) = length (padStart 39 CHR ''0'' (toString n))"
    using assms by (simp add: key_length)
  show "list_all isDigit (padStart 39 CHR ''0'' (toString m))"
    using assms by (simp add: key_digits)
  show "list_all isDigit (padStart 39 CHR ''0'' (toString n))"
    using assms by (simp add: key_digits)
  show "Number (padStart 39 CHR ''0'' (toString m)) < Number (padStart 39 CHR ''0'' (toString n))"
    using assms by (simp add: Number_key)
qed

lemma key_le_iff:
  assumes "0 \<le> m" "m < 10 ^ 39" "0 \<le> n" "n < 10 ^ 39"
  shows "padStart 39 CHR ''0'' (toString m) \<le> padStart 39 CHR ''0'' (toString n) \<longleftrightarrow> m \<le> n"
proof (cases m n rule: linorder_cases)
  case less
  then show ?thesis using key_less [of m n] assms by simp
next
  case equal
  then show ?thesis by simp
next
  case greater
  then show ?thesis using key_less [of n m] assms by (simp add: not_le)
qed

section \<open>Splitting a dotted quad\<close>

lemma split_chr_nonempty: "split_chr c s \<noteq> []"
  by (induction s) (auto split: list.splits)

lemma split_chr_single: "c \<notin> set s \<Longrightarrow> split_chr c s = [s]"
  by (induction s) auto

lemma split_chr_append:
  "c \<notin> set a \<Longrightarrow> split_chr c (a @ c # rest) = a # split_chr c rest"
  by (induction a) auto

lemma digits_no_dot: "list_all isDigit s \<Longrightarrow> CHR ''.'' \<notin> set s"
  by (induction s) (auto simp: isDigit_def)

lemma split_dottedQuad:
  assumes "list_all isDigit a" "list_all isDigit b" "list_all isDigit c" "list_all isDigit d"
  shows "split_chr CHR ''.'' (dottedQuad a b c d) = [a, b, c, d]"
  using assms
  by (simp add: dottedQuad_def split_chr_append split_chr_single digits_no_dot)

lemma octetText_Number: "octetText p \<Longrightarrow> 0 \<le> Number p \<and> Number p \<le> 255"
  using Number_bounds [of p] by (simp add: octetText_def)

lemma isIPv4_dottedQuad:
  assumes "octetText a" "octetText b" "octetText c" "octetText d"
  shows "isIPv4 (dottedQuad a b c d)"
proof -
  have s: "split_chr CHR ''.'' (dottedQuad a b c d) = [a, b, c, d]"
    using assms by (simp add: split_dottedQuad octetText_def)
  have "ipv4Regex (dottedQuad a b c d)"
    using assms by (simp add: ipv4Regex_def s octetText_def)
  then show ?thesis
    using assms by (simp add: isIPv4_def s octetText_Number)
qed

lemma key_dottedQuad:
  assumes "octetText a" "octetText b" "octetText c" "octetText d"
  shows "ipToPaddedDecimal (dottedQuad a b c d)
     = Inr (padStart 39 CHR ''0''
         (toString (shl32 (Number a) 24 + shl32 (Number b) 16 + shl32 (Number c) 8 + Number d)))"
proof -
  have s: "split_chr CHR ''.'' (dottedQuad a b c d) = [a, b, c, d]"
    using assms by (simp add: split_dottedQuad octetText_def)
  have n: "\<not> Number a < 0" "\<not> 255 < Number a" "\<not> Number b < 0" "\<not> 255 < Number b"
     "\<not> Number c < 0" "\<not> 255 < Number c" "\<not> Number d < 0" "\<not> 255 < Number d"
    using assms octetText_Number by (simp_all add: not_less)
  show ?thesis
    using isIPv4_dottedQuad [OF assms] n by (simp add: ipToPaddedDecimal_def s)
qed


section \<open>The signed 32-bit shift on octets\<close>

lemma shl32_eq: "shl32 x n = (x * 2 ^ (n mod 32) + 2 ^ 31) mod 2 ^ 32 - 2 ^ 31"
proof -
  have "push_bit (n mod 32) (word_of_int x :: 32 word) = word_of_int (x * 2 ^ (n mod 32))"
    by (simp add: push_bit_eq_mult)
  moreover have "sint (word_of_int (x * 2 ^ (n mod 32)) :: 32 word)
      = (x * 2 ^ (n mod 32) + 2 ^ 31) mod 2 ^ 32 - 2 ^ 31"
    by (simp only: int_word_sint) simp
  ultimately show ?thesis
    by (simp only: shl32_def)
qed

lemma shl32_in_range:
  assumes "0 \<le> x * 2 ^ (n mod 32)" "x * 2 ^ (n mod 32) < 2 ^ 31"
  shows "shl32 x n = x * 2 ^ (n mod 32)"
proof -
  have "(x * 2 ^ (n mod 32) + 2 ^ 31) mod 2 ^ 32 = x * 2 ^ (n mod 32) + 2 ^ 31"
    using assms by (intro mod_pos_pos_trivial) simp_all
  then show ?thesis by (simp only: shl32_eq)
qed

lemma shl32_wraps:
  assumes "2 ^ 31 \<le> x * 2 ^ (n mod 32)" "x * 2 ^ (n mod 32) < 2 ^ 32"
  shows "shl32 x n = x * 2 ^ (n mod 32) - 2 ^ 32"
proof -
  have "(x * 2 ^ (n mod 32) + 2 ^ 31 - 2 ^ 32) mod 2 ^ 32 = x * 2 ^ (n mod 32) + 2 ^ 31 - 2 ^ 32"
    using assms by (intro mod_pos_pos_trivial) simp_all
  then have "(x * 2 ^ (n mod 32) + 2 ^ 31) mod 2 ^ 32 = x * 2 ^ (n mod 32) + 2 ^ 31 - 2 ^ 32"
    by (simp only: minus_mod_self2)
  then show ?thesis by (simp only: shl32_eq)
qed

lemma shl32_octet:
  assumes "0 \<le> x" "x \<le> 255"
  shows "shl32 x 8 = x * 2 ^ 8" "shl32 x 16 = x * 2 ^ 16"
    "shl32 x 24 = (if x < 128 then x * 2 ^ 24 else x * 2 ^ 24 - 2 ^ 32)"
proof -
  show "shl32 x 8 = x * 2 ^ 8"
    using assms shl32_in_range [of x 8] by simp
  show "shl32 x 16 = x * 2 ^ 16"
    using assms shl32_in_range [of x 16] by simp
  show "shl32 x 24 = (if x < 128 then x * 2 ^ 24 else x * 2 ^ 24 - 2 ^ 32)"
    using assms shl32_in_range [of x 24] shl32_wraps [of x 24] by simp
qed

text \<open>The key of any dotted quad the grammar accepts: the padded decimal of its value when
  the first octet is below 128, and of its value less \<open>2^32\<close> (a negative number) from 128
  on.\<close>

lemma ipv4_key_signed_shift:
  assumes "octetText a" "octetText b" "octetText c" "octetText d"
  shows "ipToPaddedDecimal (dottedQuad a b c d)
     = Inr (padStart 39 CHR ''0''
         (toString (if Number a < 128
                    then spec_ipv4_value (Number a) (Number b) (Number c) (Number d)
                    else spec_ipv4_value (Number a) (Number b) (Number c) (Number d) - 2 ^ 32)))"
proof -
  have "shl32 (Number a) 24 + shl32 (Number b) 16 + shl32 (Number c) 8 + Number d
      = (if Number a < 128
         then spec_ipv4_value (Number a) (Number b) (Number c) (Number d)
         else spec_ipv4_value (Number a) (Number b) (Number c) (Number d) - 2 ^ 32)"
    using assms octetText_Number by (simp add: shl32_octet spec_ipv4_value_def)
  then show ?thesis
    by (simp only: key_dottedQuad [OF assms])
qed

section \<open>Leading zeros\<close>



section \<open>Which inputs are rejected as an invalid address\<close>

lemma includes_chr: "includes_str s [c] \<longleftrightarrow> c \<in> set s"
  by (induction s) auto

lemma split_chr_covers:
  "x \<in> set s \<Longrightarrow> x \<noteq> c \<Longrightarrow> \<exists>g\<in>set (split_chr c s). x \<in> set g"
  by (induction s) (auto split: list.splits)

lemma ipv4Regex_no_colon: "ipv4Regex ip \<Longrightarrow> CHR '':'' \<notin> set ip"
proof
  assume r: "ipv4Regex ip" and c: "CHR '':'' \<in> set ip"
  then obtain g where g: "g \<in> set (split_chr CHR ''.'' ip)" "CHR '':'' \<in> set g"
    using split_chr_covers [of "CHR '':''" ip "CHR ''.''"] by auto
  have "list_all isDigit g"
    using r g(1) by (auto simp: ipv4Regex_def Let_def list_all_iff)
  then have "isDigit CHR '':''"
    using g(2) by (simp add: list_all_iff)
  then show False by (simp add: isDigit_def)
qed

lemma isIPv4_no_colon: "isIPv4 ip \<Longrightarrow> \<not> includes_str ip '':''"
  using ipv4Regex_no_colon [of ip] by (auto simp: isIPv4_def includes_chr split: if_splits)

lemma ipv6Regex_colon: "ipv6Regex ip \<Longrightarrow> includes_str ip '':''"
proof (rule ccontr)
  assume r: "ipv6Regex ip" and n: "\<not> includes_str ip '':''"
  then have "CHR '':'' \<notin> set ip" by (simp add: includes_chr)
  then have "split_chr CHR '':'' ip = [ip]" "ip \<noteq> ''::1''" "ip \<noteq> ''::''"
    by (auto simp: split_chr_single)
  with r show False by (simp add: ipv6Regex_def)
qed

lemma isIPv6_iff: "isIPv6 ip \<longleftrightarrow> includes_str ip '':''"
  using ipv6Regex_colon by (auto simp: isIPv6_def)

lemma isIPv4_key:
  "isIPv4 ip \<Longrightarrow> \<exists>k. ipToPaddedDecimal ip = Inr k"
  by (auto simp: ipToPaddedDecimal_def isIPv4_def Let_def list_all_iff list_ex_iff split: if_splits)

lemma BigInt_hex_error: "BigInt_hex part = Inl e \<Longrightarrow> \<exists>m. e = SyntaxError m"
  by (auto simp: BigInt_hex_def Let_def split: if_splits)

lemma hexGroups_error: "hexGroups acc parts = Inl e \<Longrightarrow> \<exists>m. e = SyntaxError m"
  by (induction acc parts rule: hexGroups.induct)
     (auto split: sum.splits dest: BigInt_hex_error)

lemma normalizeIPv6_error:
  "normalizeIPv6 ip = Inl e \<Longrightarrow> e = RangeError ''Invalid array length''"
  by (auto simp: normalizeIPv6_def Let_def split: if_splits)

lemma ipv6ToDecimal_error:
  "ipv6ToDecimal ip = Inl e
   \<Longrightarrow> (\<exists>m. e = SyntaxError m) \<or> e = RangeError ''Invalid array length''"
  by (auto simp: ipv6ToDecimal_def split: if_splits sum.splits
      dest: hexGroups_error normalizeIPv6_error)

lemma colon_outcome:
  assumes "includes_str ip '':''"
  shows "(\<exists>k. ipToPaddedDecimal ip = Inr k)
       \<or> (\<exists>m. ipToPaddedDecimal ip = Inl (SyntaxError m))
       \<or> ipToPaddedDecimal ip = Inl (RangeError ''Invalid array length'')"
proof -
  have v4: "\<not> isIPv4 ip" using assms isIPv4_no_colon by blast
  have v6: "isIPv6 ip" using assms by (simp add: isIPv6_iff)
  show ?thesis
  proof (cases "ipv6ToDecimal ip")
    case (Inl e)
    then show ?thesis
      using v4 v6 ipv6ToDecimal_error [OF Inl] by (auto simp: ipToPaddedDecimal_def)
  next
    case (Inr v)
    then show ?thesis
      using v4 v6 by (simp add: ipToPaddedDecimal_def)
  qed
qed

text \<open>What the code does on every input: \<^verbatim>\<open>Invalid IP address format\<close> is thrown exactly
  for the inputs that \<^verbatim>\<open>isIPv4\<close> does not accept and that contain no colon; an input with
  a colon always goes to the IPv6 conversion.\<close>

lemma invalid_format_iff_no_colon:
  "(ipToPaddedDecimal ip = Inl (Error ''Invalid IP address format'')
      \<longleftrightarrow> \<not> isIPv4 ip \<and> \<not> includes_str ip '':'')
   \<and> (includes_str ip '':'' \<longrightarrow>
        (\<exists>k. ipToPaddedDecimal ip = Inr k)
        \<or> (\<exists>m. ipToPaddedDecimal ip = Inl (SyntaxError m))
        \<or> ipToPaddedDecimal ip = Inl (RangeError ''Invalid array length''))"
proof (intro conjI impI iffI)
  assume e: "ipToPaddedDecimal ip = Inl (Error ''Invalid IP address format'')"
  show "\<not> isIPv4 ip"
    using e isIPv4_key [of ip] by auto
  show "\<not> includes_str ip '':''"
    using e colon_outcome [of ip] by auto
next
  assume "\<not> isIPv4 ip \<and> \<not> includes_str ip '':''"
  then show "ipToPaddedDecimal ip = Inl (Error ''Invalid IP address format'')"
    by (simp add: ipToPaddedDecimal_def isIPv6_iff)
next
  assume "includes_str ip '':''"
  then show "(\<exists>k. ipToPaddedDecimal ip = Inr k)
        \<or> (\<exists>m. ipToPaddedDecimal ip = Inl (SyntaxError m))
        \<or> ipToPaddedDecimal ip = Inl (RangeError ''Invalid array length'')"
    by (rule colon_outcome)
qed

text \<open>
  C5. Inputs that match neither grammar and are not rejected with the invalid-address
  error: \<^verbatim>\<open>1::2::3\<close> has two \<^verbatim>\<open>::\<close> and is converted to a key, the key of \<^verbatim>\<open>1::2\<close> (the
  part behind the second \<^verbatim>\<open>::\<close> is dropped); \<^verbatim>\<open>1:2\<close> has two groups and is converted to
  a key; the non-hexadecimal \<^verbatim>\<open>g::\<close> throws a SyntaxError and \<^verbatim>\<open>1:2:3:4:5::6:7:8:9\<close>, with
  nine groups, a RangeError. The IPv4 path does reject a malformed quad, \<^verbatim>\<open>1.2.3\<close>, with
  the invalid-address error.
\<close>

theorem double_compression_converted:
  "includes_str ''1::2::3'' ''::''
   \<and> split_dcolon ''1::2::3'' = [''1'', ''2'', ''3'']
   \<and> \<not> ipv6Regex ''1::2::3''
   \<and> ipToPaddedDecimal ''1::2::3'' = Inr ''000005192296858534827628530496329220098''
   \<and> ipToPaddedDecimal ''1::2'' = Inr ''000005192296858534827628530496329220098''
   \<and> ipToPaddedDecimal ''1:2'' = Inr ''000000000000000000000000000000000065538''
   \<and> ipToPaddedDecimal ''g::'' = Inl (SyntaxError ''Cannot convert 0xg to a BigInt'')
   \<and> ipToPaddedDecimal ''1:2:3:4:5::6:7:8:9'' = Inl (RangeError ''Invalid array length'')
   \<and> ipToPaddedDecimal ''1.2.3'' = Inl (Error ''Invalid IP address format'')"
  by code_simp

theorem double_compression_converted_witness:
  "(\<exists>k. ipToPaddedDecimal ''1::2::3'' = Inr k)
   \<and> ipToPaddedDecimal ''1::2::3'' \<noteq> Inl (Error ''Invalid IP address format'')
   \<and> ipToPaddedDecimal ''g::'' \<noteq> Inl (Error ''Invalid IP address format'')"
  using double_compression_converted by simp

section \<open>The client of the module\<close>

lemma getDatabase_again:
  "fst (getDatabase env files (snd (getDatabase env files st))) = fst (getDatabase env files st)"
  by (simp add: getDatabase_def Let_def split: option.splits)

lemma lookupIP_state:
  "snd (lookupIP env files st ip) = st
   \<or> snd (lookupIP env files st ip) = snd (getDatabase env files st)"
  by (simp add: lookupIP_def Let_def split: sum.splits prod.splits)

lemma lookupIP_keeps_client:
  "fst (getDatabase env files (snd (lookupIP env files st ip))) = fst (getDatabase env files st)"
  using lookupIP_state [of env files st ip] getDatabase_again [of env files st] by auto

lemma lookupIP_same_client:
  "fst (getDatabase env files st) = fst (getDatabase env files st')
   \<Longrightarrow> fst (lookupIP env files st ip) = fst (lookupIP env files st' ip)"
  by (cases "getDatabase env files st"; cases "getDatabase env files st'")
     (auto simp: lookupIP_def Let_def split: sum.splits)

lemma lookupIPs_map:
  "fst (lookupIPs env files st ips)
     = map (\<lambda>ip. case fst (lookupIP env files st ip) of Inr v \<Rightarrow> v | Inl e \<Rightarrow> None) ips"
proof (induction ips arbitrary: st)
  case Nil
  show ?case by simp
next
  case (Cons ip ips)
  obtain result st1 where r: "lookupIP env files st ip = (result, st1)"
    by (cases "lookupIP env files st ip")
  have c: "fst (getDatabase env files st1) = fst (getDatabase env files st)"
    using lookupIP_keeps_client [of env files st ip] r by simp
  have "fst (lookupIPs env files st1 ips)
      = map (\<lambda>ip. case fst (lookupIP env files st1 ip) of Inr v \<Rightarrow> v | Inl e \<Rightarrow> None) ips"
    by (rule Cons.IH)
  also have "\<dots> = map (\<lambda>ip. case fst (lookupIP env files st ip) of Inr v \<Rightarrow> v | Inl e \<Rightarrow> None) ips"
    using lookupIP_same_client [OF c] by simp
  finally show ?case
    using r by (simp add: split_beta)
qed

lemma lookupIPs_keeps_client:
  "fst (getDatabase env files (snd (lookupIPs env files st ips)))
     = fst (getDatabase env files st)"
proof (induction ips arbitrary: st)
  case Nil
  show ?case by simp
next
  case (Cons ip ips)
  have "fst (getDatabase env files (snd (lookupIPs env files (snd (lookupIP env files st ip)) ips)))
      = fst (getDatabase env files (snd (lookupIP env files st ip)))"
    by (rule Cons.IH)
  then show ?case
    by (simp add: split_beta lookupIP_keeps_client)
qed

text \<open>
  C8. A lookup repeated on the state the first lookup left, or on the state any batch of
  lookups left, against the same storage and environment, has the result of the first.
\<close>

theorem lookupIP_deterministic:
  "fst (lookupIP env files (snd (lookupIP env files st ip)) ip) = fst (lookupIP env files st ip)
   \<and> fst (lookupIP env files (snd (lookupIPs env files st ips)) ip)
       = fst (lookupIP env files st ip)"
  using lookupIP_same_client [OF lookupIP_keeps_client] lookupIP_same_client [OF lookupIPs_keeps_client]
  by blast

theorem lookupIP_deterministic_witness:
  "fst (lookupIP None sample_storage
          (snd (lookupIP None sample_storage \<lparr>client = None\<rparr> ''8.8.8.8'')) ''8.8.8.8'')
     = fst (lookupIP None sample_storage \<lparr>client = None\<rparr> ''8.8.8.8'')
   \<and> snd (lookupIP None sample_storage \<lparr>client = None\<rparr> ''8.8.8.8'')
       = \<lparr>client = Some ''file:./data/primary.db''\<rparr>"
proof -
  have "ipToPaddedDecimal ''8.8.8.8'' = Inr ''000000000000000000000000000000134744072''"
    by code_simp
  then have "snd (lookupIP None sample_storage \<lparr>client = None\<rparr> ''8.8.8.8'')
       = \<lparr>client = Some ''file:./data/primary.db''\<rparr>"
    by (simp add: lookupIP_def getDatabase_def sample_storage_def Let_def)
  then show ?thesis
    using lookupIP_deterministic [of None sample_storage "\<lparr>client = None\<rparr>" "''8.8.8.8''"]
    by simp
qed

section \<open>The predecessor query\<close>

lemma sorted_key_le_last:
  "sorted (map f ys) \<Longrightarrow> x \<in> set ys \<Longrightarrow> f x \<le> f (last ys)"
  by (induction ys) (auto split: if_splits)

lemma cand_none:
  "\<forall>r\<in>set tbl. \<not> ip_from_padded r \<le> key \<Longrightarrow> cand tbl key = []"
  by (simp add: cand_def filter_empty_conv)

lemma cand_predecessor:
  assumes pk: "distinct (map ip_from_padded tbl)"
    and r: "r \<in> set tbl" "ip_from_padded r \<le> key"
    and mx: "\<forall>r'\<in>set tbl. ip_from_padded r' \<le> key \<longrightarrow> ip_from_padded r' \<le> ip_from_padded r"
  shows "cand tbl key = [r]"
proof -
  let ?xs = "filter (\<lambda>r. ip_from_padded r \<le> key) tbl"
  let ?ys = "sort_key ip_from_padded ?xs"
  have rin: "r \<in> set ?ys" using r by simp
  have ne: "?ys \<noteq> []"
  proof
    assume "?ys = []"
    then have "set ?ys = {}" by (simp only: set_empty2 [symmetric] set_empty)
    with rin show False by (simp only: empty_iff)
  qed
  have lin: "last ?ys \<in> set ?ys" using ne by (rule last_in_set)
  then have ltbl: "last ?ys \<in> set tbl" and lkey: "ip_from_padded (last ?ys) \<le> key"
    by simp_all
  have "ip_from_padded r \<le> ip_from_padded (last ?ys)"
    using sorted_sort_key rin by (rule sorted_key_le_last)
  moreover have "ip_from_padded (last ?ys) \<le> ip_from_padded r"
    using mx ltbl lkey by blast
  ultimately have "ip_from_padded (last ?ys) = ip_from_padded r" by simp
  moreover have "inj_on ip_from_padded (set tbl)"
    using pk by (simp add: distinct_map)
  ultimately have "last ?ys = r"
    using ltbl r(1) by (auto dest: inj_onD)
  moreover have "take 1 (rev ?ys) = [last ?ys]"
    using ne by (cases "rev ?ys") (auto simp: last_rev [symmetric] simp del: last_rev)
  ultimately show ?thesis by (simp add: cand_def)
qed

lemma rangeQuery_none:
  "\<forall>r\<in>set tbl. \<not> ip_from_padded r \<le> key \<Longrightarrow> rangeQuery tbl key = []"
  by (simp add: rangeQuery_def cand_none)

lemma rangeQuery_predecessor:
  assumes "distinct (map ip_from_padded tbl)"
    and "r \<in> set tbl" "ip_from_padded r \<le> key"
    and "\<forall>r'\<in>set tbl. ip_from_padded r' \<le> key \<longrightarrow> ip_from_padded r' \<le> ip_from_padded r"
  shows "rangeQuery tbl key = (if key \<le> ip_to_padded r then [r] else [])"
  using cand_predecessor [OF assms] by (simp add: rangeQuery_def)

lemma lookupIP_rangeQuery:
  assumes "ipToPaddedDecimal ip = Inr k"
    and "fst (getDatabase env files st) = Inr db"
    and "execute files db = Inr tbl"
  shows "fst (lookupIP env files st ip)
     = Inr (case rangeQuery tbl k of [] \<Rightarrow> None | r # rs \<Rightarrow> Some (project r))"
  using assms
  by (cases "getDatabase env files st") (simp add: lookupIP_def Let_def split: list.splits)

text \<open>The lookup relative to the key the codec returns. Let \<open>k\<close> be that key and let the
  primary key hold in the table the client reads. If no row starts at or below \<open>k\<close>, the
  lookup is fulfilled with null. If \<open>r\<close> is the row with the largest start at or below \<open>k\<close>,
  the lookup is fulfilled with the projection of \<open>r\<close> when \<open>k\<close> is at most the end of \<open>r\<close>
  (the end included), and with null when the end of \<open>r\<close> is below \<open>k\<close>; in particular with
  null when \<open>k\<close> is the key of the end of \<open>r\<close> plus one.\<close>

lemma lookupIP_predecessor:
  assumes key: "ipToPaddedDecimal ip = Inr k"
    and db: "fst (getDatabase env files st) = Inr db"
    and tbl: "execute files db = Inr tbl"
    and pk: "distinct (map ip_from_padded tbl)"
  shows
    "((\<forall>r\<in>set tbl. \<not> ip_from_padded r \<le> k) \<longrightarrow> fst (lookupIP env files st ip) = Inr None)
     \<and> (\<forall>r\<in>set tbl.
          ip_from_padded r \<le> k
          \<and> (\<forall>r'\<in>set tbl. ip_from_padded r' \<le> k \<longrightarrow> ip_from_padded r' \<le> ip_from_padded r)
          \<longrightarrow> (k \<le> ip_to_padded r \<longrightarrow> fst (lookupIP env files st ip) = Inr (Some (project r)))
              \<and> (ip_to_padded r < k \<longrightarrow> fst (lookupIP env files st ip) = Inr None)
              \<and> (\<forall>e. 0 \<le> e \<and> e + 1 < 10 ^ 39
                       \<and> ip_to_padded r = padStart 39 CHR ''0'' (toString e)
                       \<and> k = padStart 39 CHR ''0'' (toString (e + 1))
                    \<longrightarrow> fst (lookupIP env files st ip) = Inr None))"
proof -
  have lq: "fst (lookupIP env files st ip)
     = Inr (case rangeQuery tbl k of [] \<Rightarrow> None | r # rs \<Rightarrow> Some (project r))"
    using key db tbl by (rule lookupIP_rangeQuery)
  show ?thesis
  proof (intro conjI impI ballI allI)
  assume "\<forall>r\<in>set tbl. \<not> ip_from_padded r \<le> k"
  then show "fst (lookupIP env files st ip) = Inr None"
    by (simp add: lq rangeQuery_none)
next
  fix r
  assume r: "r \<in> set tbl"
    and p: "ip_from_padded r \<le> k
          \<and> (\<forall>r'\<in>set tbl. ip_from_padded r' \<le> k \<longrightarrow> ip_from_padded r' \<le> ip_from_padded r)"
  have q: "rangeQuery tbl k = (if k \<le> ip_to_padded r then [r] else [])"
    using pk r p by (intro rangeQuery_predecessor) simp_all
  {
    assume "k \<le> ip_to_padded r"
    then show "fst (lookupIP env files st ip) = Inr (Some (project r))"
      by (simp add: lq q)
  next
    assume "ip_to_padded r < k"
    then show "fst (lookupIP env files st ip) = Inr None"
      by (simp add: lq q not_le)
  next
    fix e :: int
    assume e: "0 \<le> e \<and> e + 1 < 10 ^ 39
                       \<and> ip_to_padded r = padStart 39 CHR ''0'' (toString e)
                       \<and> k = padStart 39 CHR ''0'' (toString (e + 1))"
    then have "padStart 39 CHR ''0'' (toString e) < padStart 39 CHR ''0'' (toString (e + 1))"
      by (intro key_less) simp_all
    then have "ip_to_padded r < k" using e by simp
    then show "fst (lookupIP env files st ip) = Inr None"
      by (simp add: lq q not_le)
  }
  qed
qed

text \<open>The projection keeps the ten public columns of the row.\<close>

lemma project_fields:
  "ip_from_dec (project r) = ip_from_dec r" "ip_to_dec (project r) = ip_to_dec r"
  "country_code (project r) = country_code r" "country_name (project r) = country_name r"
  "region_name (project r) = region_name r" "city_name (project r) = city_name r"
  "latitude (project r) = latitude r" "longitude (project r) = longitude r"
  "zip_code (project r) = zip_code r" "time_zone (project r) = time_zone r"
  by (simp_all add: project_def)

lemma high_keys:
  "ipToPaddedDecimal ''128.0.0.0'' = Inr ''0000000000000000000000000000-2147483648''"
  "ipToPaddedDecimal ''0:0:0:0:0:0:8000:0'' = Inr ''000000000000000000000000000002147483648''"
  by code_simp+

lemma high_queries:
  "rangeQuery high_table ''0000000000000000000000000000-2147483648'' = []"
  "rangeQuery high_table ''000000000000000000000000000002147483648''
     = [sample_row ''2147483648'' ''2147483903'' ''US'' ''Columbus'']"
  by code_simp+

lemma high_project:
  "project (sample_row ''2147483648'' ''2147483903'' ''US'' ''Columbus'')
     = \<lparr>ip_from_dec = ''2147483648'', ip_to_dec = ''2147483903'',
        country_code = Some ''US'', country_name = None,
        region_name = None, city_name = Some ''Columbus'',
        latitude = None, longitude = None,
        zip_code = None, time_zone = None\<rparr>"
  by (simp add: project_def sample_row_def)

lemma high_range:
  "padStart 39 CHR ''0'' (toString (spec_ipv4_value 128 0 0 0))
     = ''000000000000000000000000000002147483648''"
  "ip_from_padded (sample_row ''2147483648'' ''2147483903'' ''US'' ''Columbus'')
     = ''000000000000000000000000000002147483648''"
  "ip_to_padded (sample_row ''2147483648'' ''2147483903'' ''US'' ''Columbus'')
     = ''000000000000000000000000000002147483903''"
  "(''000000000000000000000000000002147483648'' :: string)
     \<le> ''000000000000000000000000000002147483903''"
  by code_simp+

text \<open>
  C1. The table \<open>high_table\<close> holds the range from 2147483648 to 2147483903, and the
  value of \<^verbatim>\<open>128.0.0.0\<close> is 2147483648: its canonical key is the start of that range. The
  lookup of \<^verbatim>\<open>128.0.0.0\<close> is fulfilled with null, because the codec hands it the key of
  -2147483648, which is below every start. The same number written as the IPv6 address
  \<^verbatim>\<open>0:0:0:0:0:0:8000:0\<close> is found, with the attributes of that range.
\<close>

theorem lookupIP_high_octet_not_found:
  "padStart 39 CHR ''0'' (toString (spec_ipv4_value 128 0 0 0))
     = ip_from_padded (sample_row ''2147483648'' ''2147483903'' ''US'' ''Columbus'')
   \<and> padStart 39 CHR ''0'' (toString (spec_ipv4_value 128 0 0 0))
       \<le> ip_to_padded (sample_row ''2147483648'' ''2147483903'' ''US'' ''Columbus'')
   \<and> sample_row ''2147483648'' ''2147483903'' ''US'' ''Columbus'' \<in> set high_table
   \<and> fst (lookupIP None high_storage \<lparr>client = None\<rparr> ''128.0.0.0'') = Inr None
   \<and> fst (lookupIP None high_storage \<lparr>client = None\<rparr> ''0:0:0:0:0:0:8000:0'')
       = Inr (Some \<lparr>ip_from_dec = ''2147483648'', ip_to_dec = ''2147483903'',
                     country_code = Some ''US'', country_name = None,
                     region_name = None, city_name = Some ''Columbus'',
                     latitude = None, longitude = None,
                     zip_code = None, time_zone = None\<rparr>)"
proof -
  have "sample_row ''2147483648'' ''2147483903'' ''US'' ''Columbus'' \<in> set high_table"
    by (simp add: high_table_def)
  moreover have "fst (lookupIP None high_storage \<lparr>client = None\<rparr> ''128.0.0.0'') = Inr None"
    by (simp add: lookupIP_def getDatabase_def high_storage_def Let_def high_keys high_queries)
  moreover have "fst (lookupIP None high_storage \<lparr>client = None\<rparr> ''0:0:0:0:0:0:8000:0'')
      = Inr (Some (project (sample_row ''2147483648'' ''2147483903'' ''US'' ''Columbus'')))"
    by (simp add: lookupIP_def getDatabase_def high_storage_def Let_def high_keys high_queries)
  ultimately show ?thesis
    by (simp add: high_range high_project)
qed

theorem lookupIP_high_octet_not_found_witness:
  "fst (lookupIP None high_storage \<lparr>client = None\<rparr> ''128.0.0.0'')
     \<noteq> fst (lookupIP None high_storage \<lparr>client = None\<rparr> ''0:0:0:0:0:0:8000:0'')"
  using lookupIP_high_octet_not_found by simp

section \<open>Batches\<close>

lemma batch_keys:
  "ipToPaddedDecimal ''8.8.8.8'' = Inr ''000000000000000000000000000000134744072''"
  "ipToPaddedDecimal ''not-an-ip'' = Inl (Error ''Invalid IP address format'')"
  "ipToPaddedDecimal ''1.1.1.1'' = Inr ''000000000000000000000000000000016843009''"
  by code_simp+

lemma batch_queries:
  "rangeQuery sample_table ''000000000000000000000000000000134744072''
     = [sample_row ''134744064'' ''134744319'' ''US'' ''Mountain View'']"
  "rangeQuery sample_table ''000000000000000000000000000000016843009'' = []"
  by code_simp+

lemma batch_single:
  "fst (lookupIP None sample_storage st ''8.8.8.8'')
     = Inr (Some (project (sample_row ''134744064'' ''134744319'' ''US'' ''Mountain View'')))"
  "fst (lookupIP None sample_storage st ''not-an-ip'') = Inl (Error ''Invalid IP address format'')"
  "fst (lookupIP None sample_storage st ''1.1.1.1'') = Inr None"
  by (simp_all add: lookupIP_def getDatabase_def batch_keys batch_queries sample_storage_def
      Let_def split: option.splits)

text \<open>
  C7, as the code has it. \<^verbatim>\<open>lookupIPs\<close> returns one outcome per input, in input order;
  each outcome is the one of the lookup of that address alone, with a rejected lookup
  turned into null. A malformed address gives null for its own item.
\<close>

theorem lookupIPs_pointwise:
  "fst (lookupIPs env files st ips)
     = map (\<lambda>ip. case fst (lookupIP env files st ip) of Inr v \<Rightarrow> v | Inl e \<Rightarrow> None) ips
   \<and> length (fst (lookupIPs env files st ips)) = length ips
   \<and> (\<forall>i<length ips. \<forall>e. ipToPaddedDecimal (ips ! i) = Inl e
         \<longrightarrow> fst (lookupIPs env files st ips) ! i = None)"
proof -
  have m: "fst (lookupIPs env files st ips)
     = map (\<lambda>ip. case fst (lookupIP env files st ip) of Inr v \<Rightarrow> v | Inl e \<Rightarrow> None) ips"
    by (rule lookupIPs_map)
  have "fst (lookupIPs env files st ips) ! i = None"
    if "i < length ips" "ipToPaddedDecimal (ips ! i) = Inl e" for i e
    using that by (simp add: m lookupIP_def)
  then show ?thesis
    using m by simp
qed

theorem lookupIPs_pointwise_witness:
  "ipToPaddedDecimal ([''8.8.8.8'', ''not-an-ip'', ''1.1.1.1''] ! 1)
     = Inl (Error ''Invalid IP address format'')
   \<and> fst (lookupIPs None sample_storage \<lparr>client = None\<rparr>
            [''8.8.8.8'', ''not-an-ip'', ''1.1.1.1'']) ! 1 = None
   \<and> fst (lookupIPs None sample_storage \<lparr>client = None\<rparr>
            [''8.8.8.8'', ''not-an-ip'', ''1.1.1.1''])
       = [Some (project (sample_row ''134744064'' ''134744319'' ''US'' ''Mountain View'')),
          None, None]"
proof -
  have e: "ipToPaddedDecimal ([''8.8.8.8'', ''not-an-ip'', ''1.1.1.1''] ! 1)
     = Inl (Error ''Invalid IP address format'')"
    by (simp add: batch_keys)
  have i: "(1::nat) < length [''8.8.8.8'', ''not-an-ip'', ''1.1.1.1'']"
    by simp
  have "fst (lookupIPs None sample_storage \<lparr>client = None\<rparr>
            [''8.8.8.8'', ''not-an-ip'', ''1.1.1.1'']) ! 1 = None"
    using lookupIPs_pointwise
      [of None sample_storage "\<lparr>client = None\<rparr>" "[''8.8.8.8'', ''not-an-ip'', ''1.1.1.1'']"]
      e i by blast
  moreover have "fst (lookupIPs None sample_storage \<lparr>client = None\<rparr>
            [''8.8.8.8'', ''not-an-ip'', ''1.1.1.1''])
       = [Some (project (sample_row ''134744064'' ''134744319'' ''US'' ''Mountain View'')),
          None, None]"
    using lookupIPs_pointwise
      [of None sample_storage "\<lparr>client = None\<rparr>" "[''8.8.8.8'', ''not-an-ip'', ''1.1.1.1'']"]
    by (simp add: batch_single del: lookupIPs.simps)
  ultimately show ?thesis
    using e by simp
qed

text \<open>
  C7, as stated, fails: in the batch \<^verbatim>\<open>8.8.8.8\<close>, \<^verbatim>\<open>not-an-ip\<close>, \<^verbatim>\<open>1.1.1.1\<close> the outcome
  of the malformed \<^verbatim>\<open>not-an-ip\<close> is null, the same as the outcome of \<^verbatim>\<open>1.1.1.1\<close>, which
  is valid and in no range.
\<close>

theorem batch_invalid_like_not_found:
  "fst (lookupIP None sample_storage \<lparr>client = None\<rparr> ''not-an-ip'')
     = Inl (Error ''Invalid IP address format'')
   \<and> fst (lookupIP None sample_storage \<lparr>client = None\<rparr> ''1.1.1.1'') = Inr None
   \<and> fst (lookupIPs None sample_storage \<lparr>client = None\<rparr> [''8.8.8.8'', ''not-an-ip'', ''1.1.1.1''])
       = [Some (project (sample_row ''134744064'' ''134744319'' ''US'' ''Mountain View'')),
          None, None]"
  by (simp add: batch_single lookupIPs_map del: lookupIPs.simps)

end
